theory Spec2Isabelle
  imports Complex_Main
begin

section \<open>Values, failures and promises\<close>

text \<open>
  The dispatcher of \<^verbatim>\<open>Shared.ts\<close> moves untyped JavaScript values (\<^verbatim>\<open>any\<close>).
  They are modelled by a datatype of JSON-like values; numbers are restricted to the
  integer-valued ones, objects are association lists of their own properties.
\<close>

datatype jsval =
    JUndefined
  | JNull
  | JBool bool
  | JNum int
  | JStr string
  | JArr "jsval list"
  | JObj "(string \<times> jsval) list"

text \<open>
  What a \<^verbatim>\<open>throw\<close> or a rejected promise carries: \<^verbatim>\<open>new Error(message)\<close>, the
  \<^verbatim>\<open>TypeError\<close> that the engine raises on a property read of \<^verbatim>\<open>undefined\<close> (its
  message is engine specific and is not modelled), or any other value.
\<close>

datatype exn =
    Error string
  | TypeError
  | Thrown jsval

text \<open>
  The state a promise ends in. \<open>Pending\<close> is the promise that never settles, so a
  dispatch that never returns is a value of the model.
\<close>

datatype 'a promise =
    Resolved 'a
  | Rejected exn
  | Pending

text \<open>
  \<^verbatim>\<open>async (..) => f(await p)\<close>: the returned promise resolves to \<open>f v\<close> when \<open>p\<close>
  resolves to \<open>v\<close>, rejects with the reason of \<open>p\<close>, and stays pending with \<open>p\<close>.
\<close>

fun async_await :: "'a promise \<Rightarrow> ('a \<Rightarrow> 'b) \<Rightarrow> 'b promise" where
  "async_await (Resolved v) f = Resolved (f v)"
| "async_await (Rejected e) f = Rejected e"
| "async_await Pending f = Pending"

section \<open>The structural validator\<close>

text \<open>
  An io-ts codec \<^verbatim>\<open>t.Type<A>\<close> is used through \<^verbatim>\<open>decode\<close> only. The codec is
  modelled by its decode function: \<open>Inr v\<close> is a Right holding the decoded value,
  \<open>Inl s\<close> is a Left, where \<open>s\<close> is the text a template literal renders the Left to.
\<close>

type_synonym 'a Type = "jsval \<Rightarrow> string + 'a"

text \<open>
  Modelled from the spec: the codecs \<^verbatim>\<open>t.string\<close>, \<^verbatim>\<open>t.number\<close>, \<^verbatim>\<open>t.any\<close> and
  \<^verbatim>\<open>t.tuple\<close> belong to the io-ts library, which is not part of the sources. The
  envelope is the 3-tuple (string, string, any) of the specification; the rendering
  of a Left is fixed to the text \<open>left\<close>.
\<close>

fun t_string :: "string Type" where
  "t_string (JStr s) = Inr s"
| "t_string v = Inl ''left''"

fun t_number :: "int Type" where
  "t_number (JNum n) = Inr n"
| "t_number v = Inl ''left''"

definition t_any :: "jsval Type" where
  "t_any v = Inr v"

fun t_tuple3 :: "'a Type \<Rightarrow> 'b Type \<Rightarrow> 'c Type \<Rightarrow> ('a \<times> 'b \<times> 'c) Type" where
  "t_tuple3 A B C (JArr [a, b, c]) =
     (case (A a, B b, C c) of
        (Inr x, Inr y, Inr z) \<Rightarrow> Inr (x, y, z)
      | _ \<Rightarrow> Inl ''left'')"
| "t_tuple3 A B C v = Inl ''left''"

definition Payload :: "(string \<times> string \<times> jsval) Type" where
  "Payload = t_tuple3 t_string t_string t_any"

section \<open>Declarations and the registry\<close>

text \<open>\<^verbatim>\<open>interface FN<I, O> { i: t.Type<I>, o: t.Type<O> }\<close>, at \<^verbatim>\<open>FN<any, any>\<close>.\<close>

record FN =
  i_type :: "jsval Type"
  o_type :: "jsval Type"

text \<open>
  \<^verbatim>\<open>type NamedFnDef<I, O> = () => FN<I, O>\<close>: a function object. \<open>name\<close> is its
  \<^verbatim>\<open>name\<close> property, \<open>thunk\<close> is what calling it returns.
\<close>

record NamedFnDef =
  name :: string
  thunk :: FN

text \<open>
  A handler \<^verbatim>\<open>(ctx: C, msg: any) => Promise<any>\<close> is opaque code with effects, and
  its effects are made explicit. It transforms a world \<open>'w\<close>, the state outside the
  dispatcher. It can also hold the \<^verbatim>\<open>FunctionHandler\<close> it is registered in, whose
  \<^verbatim>\<open>registry\<close> and \<^verbatim>\<open>load\<close> are public, and write to the registry while it runs:
  \<open>Register d f\<close> is \<^verbatim>\<open>load(register => register(d)(f))\<close>, which is the assignment
  \<^verbatim>\<open>registry[d.name] = { type: d(), fn: f }\<close>; \<open>Delete k\<close> is
  \<^verbatim>\<open>delete registry[k]\<close>; \<open>Reset\<close> is \<^verbatim>\<open>registry = {}\<close>. A run of a handler
  yields the final state of its promise, the world afterwards and the writes it has
  performed, in their order.
\<close>

datatype 'f registry_write =
    Register NamedFnDef 'f
  | Delete string
  | Reset

datatype ('c, 'w) AsyncFnCall =
  AsyncFnCall (run: "'c \<Rightarrow> jsval \<Rightarrow> 'w \<Rightarrow> jsval promise \<times> 'w \<times> ('c, 'w) AsyncFnCall registry_write list")

record ('c, 'w) entry =
  fn :: "('c, 'w) AsyncFnCall"
  type :: FN

text \<open>
  \<^verbatim>\<open>registry: Registry<C> = {}\<close> is an ordinary object: it has its own properties
  and a prototype. \<open>own\<close> holds the own properties. \<open>proto\<close> is \<open>None\<close> while the
  prototype is \<^verbatim>\<open>Object.prototype\<close>, and \<open>Some e\<close> once an assignment to the key
  \<^verbatim>\<open>__proto__\<close> has made the entry object \<open>e\<close> the prototype.
\<close>

record ('c, 'w) Registry =
  own :: "string \<rightharpoonup> ('c, 'w) entry"
  proto :: "('c, 'w) entry option"

text \<open>The property names every object inherits from \<^verbatim>\<open>Object.prototype\<close>.\<close>

definition Object_prototype :: "string list" where
  "Object_prototype =
     [''constructor'', ''hasOwnProperty'', ''isPrototypeOf'', ''propertyIsEnumerable'',
      ''toLocaleString'', ''toString'', ''valueOf'', ''__proto__'',
      ''__defineGetter__'', ''__defineSetter__'', ''__lookupGetter__'',
      ''__lookupSetter__'']"

text \<open>
  The value of \<^verbatim>\<open>this.registry[name]\<close>: \<^verbatim>\<open>undefined\<close>, a registry entry, or a
  truthy value found on the prototype chain that is not an entry (a method of
  \<^verbatim>\<open>Object.prototype\<close>, or a field of an entry that became the prototype); such a
  value has no \<^verbatim>\<open>type\<close> property.
\<close>

datatype ('c, 'w) property =
    Undefined
  | Entry "('c, 'w) entry"
  | Inherited

definition registry_get :: "('c, 'w) Registry \<Rightarrow> string \<Rightarrow> ('c, 'w) property" where
  "registry_get r k =
     (if k = ''__proto__'' then
        (case proto r of None \<Rightarrow> Inherited | Some e \<Rightarrow> Entry e)
      else
        (case own r k of
           Some e \<Rightarrow> Entry e
         | None \<Rightarrow>
             if proto r \<noteq> None \<and> k \<in> set [''fn'', ''type''] then Inherited
             else if k \<in> set Object_prototype then Inherited
             else Undefined))"

text \<open>\<^verbatim>\<open>this.registry[name] = e\<close>.\<close>

definition registry_set ::
  "('c, 'w) Registry \<Rightarrow> string \<Rightarrow> ('c, 'w) entry \<Rightarrow> ('c, 'w) Registry" where
  "registry_set r k e =
     (if k = ''__proto__'' then r\<lparr>proto := Some e\<rparr>
      else r\<lparr>own := (own r)(k \<mapsto> e)\<rparr>)"

record ('c, 'w) FunctionHandler =
  registry :: "('c, 'w) Registry"

text \<open>\<^verbatim>\<open>new FunctionHandler<C>()\<close>: the registry is \<^verbatim>\<open>{}\<close>.\<close>

definition new_FunctionHandler :: "('c, 'w) FunctionHandler" where
  "new_FunctionHandler = \<lparr>registry = \<lparr>own = Map.empty, proto = None\<rparr>\<rparr>"

text \<open>
  The function handed to the loader, \<^verbatim>\<open>type => fn => { this.registry[type.name] =
  { type: type(), fn } }\<close>, applied to both its arguments.
\<close>

definition register ::
  "('c, 'w) FunctionHandler \<Rightarrow> NamedFnDef \<Rightarrow> ('c, 'w) AsyncFnCall \<Rightarrow> ('c, 'w) FunctionHandler"
  where
  "register this type_def f =
     this\<lparr>registry := registry_set (registry this) (name type_def)
                         \<lparr>fn = f, type = thunk type_def\<rparr>\<rparr>"

text \<open>
  \<^verbatim>\<open>load(loader)\<close>. A loader is modelled by the registrations it performs, in the
  order in which it performs them.
\<close>

definition load ::
  "('c, 'w) FunctionHandler \<Rightarrow> (NamedFnDef \<times> ('c, 'w) AsyncFnCall) list \<Rightarrow>
     ('c, 'w) FunctionHandler" where
  "load this loader = fold (\<lambda>(type_def, f) h. register h type_def f) loader this"

text \<open>
  \<^verbatim>\<open>delete this.registry[k]\<close> removes an own property; \<^verbatim>\<open>__proto__\<close> is never an
  own property of the registry.
\<close>

definition registry_delete :: "('c, 'w) Registry \<Rightarrow> string \<Rightarrow> ('c, 'w) Registry" where
  "registry_delete r k = (if k = ''__proto__'' then r else r\<lparr>own := (own r)(k := None)\<rparr>)"

text \<open>The writes of a handler, carried out on the object in their order.\<close>

fun write_registry ::
  "('c, 'w) FunctionHandler \<Rightarrow> ('c, 'w) AsyncFnCall registry_write \<Rightarrow> ('c, 'w) FunctionHandler" where
  "write_registry this (Register type_def f) = register this type_def f"
| "write_registry this (Delete k) = this\<lparr>registry := registry_delete (registry this) k\<rparr>"
| "write_registry this Reset = this\<lparr>registry := \<lparr>own = Map.empty, proto = None\<rparr>\<rparr>"

definition perform ::
  "('c, 'w) FunctionHandler \<Rightarrow> ('c, 'w) AsyncFnCall registry_write list \<Rightarrow> ('c, 'w) FunctionHandler"
  where
  "perform this ws = fold (\<lambda>x h. write_registry h x) ws this"

section \<open>The dispatcher\<close>

text \<open>The object \<^verbatim>\<open>{ token, result }\<close> that a dispatch resolves to.\<close>

record reply =
  token :: string
  result :: jsval

text \<open>
  \<^verbatim>\<open>async call(context, msg)\<close>. Every \<^verbatim>\<open>throw\<close> inside the async method is a
  rejection of the returned promise. The method is given the object and the world
  and returns the promise's final state, the object and the world afterwards. The
  method itself assigns nothing; the object afterwards is the object on which the
  invoked handler has performed its writes.
\<close>

definition call ::
  "('c, 'w) FunctionHandler \<Rightarrow> 'c \<Rightarrow> jsval \<Rightarrow> 'w \<Rightarrow>
     reply promise \<times> ('c, 'w) FunctionHandler \<times> 'w" where
  "call this context msg w =
     (case Payload msg of
        Inl payload \<Rightarrow> (Rejected (Error (''Payload error: '' @ payload)), this, w)
      | Inr (nm, tok, args) \<Rightarrow>
          (case registry_get (registry this) nm of
             Undefined \<Rightarrow> (Rejected (Error (''Handler missing for '' @ nm)), this, w)
           | Inherited \<Rightarrow> (Rejected TypeError, this, w)
           | Entry handler \<Rightarrow>
               (case i_type (type handler) args of
                  Inl input \<Rightarrow>
                    (Rejected (Error (''Invalid input for '' @ nm @ '': '' @ input)), this, w)
                | Inr input \<Rightarrow>
                    (case run (fn handler) context input w of
                       (p, w', ws) \<Rightarrow>
                         (async_await p (\<lambda>r. \<lparr>token = tok, result = r\<rparr>),
                          perform this ws, w')))))"

text \<open>A run of dispatches, each awaited before the next one is issued.\<close>

fun calls ::
  "('c, 'w) FunctionHandler \<Rightarrow> ('c \<times> jsval) list \<Rightarrow> 'w \<Rightarrow>
     reply promise list \<times> ('c, 'w) FunctionHandler \<times> 'w" where
  "calls this [] w = ([], this, w)"
| "calls this ((context, msg) # ds) w =
     (case call this context msg w of
        (p, this', w') \<Rightarrow>
          (case calls this' ds w' of
             (ps, this'', w'') \<Rightarrow> (p # ps, this'', w'')))"

section \<open>The token generator and the caller wrapper\<close>

text \<open>
  \<^verbatim>\<open>uuid\<close> reads the clock and the random source. What one invocation observes is
  a record: \<open>now\<close> is the integer \<^verbatim>\<open>Date.now()\<close> returns, \<open>random\<close> the number
  \<^verbatim>\<open>Math.random()\<close> returns. Multiplying by 256 is exact on floating point numbers
  and \<^verbatim>\<open>Math.round\<close> is defined on the exact value, so rationals compute the same
  integer as the program does.
\<close>

record env =
  now :: int
  random :: rat

text \<open>\<^verbatim>\<open>Math.round(x)\<close>: the nearest integer, a tie going up.\<close>

definition Math_round :: "rat \<Rightarrow> int" where
  "Math_round x = \<lfloor>x + 1 / 2\<rfloor>"

definition digit_char :: "nat \<Rightarrow> char" where
  "digit_char d = ''0123456789abcdefghijklmnopqrstuvwxyz'' ! d"

text \<open>
  The digits of a natural number in radix \<open>b\<close>, most significant first. The program
  uses the radices 10 and 16; a radix below 2, for which \<^verbatim>\<open>toString\<close> raises a
  \<^verbatim>\<open>RangeError\<close>, does not occur.
\<close>

function digits :: "nat \<Rightarrow> nat \<Rightarrow> string" where
  "digits b n =
     (if n < b \<or> b < 2 then [digit_char n]
      else digits b (n div b) @ [digit_char (n mod b)])"
  by pat_completeness auto
termination
  by (relation "measure (\<lambda>(b, n). n)") auto

text \<open>\<^verbatim>\<open>Number.prototype.toString(radix)\<close> on an integer.\<close>

definition Number_toString :: "nat \<Rightarrow> int \<Rightarrow> string" where
  "Number_toString b x =
     (if x < 0 then CHR ''-'' # digits b (nat (- x)) else digits b (nat x))"

text \<open>
  \<^verbatim>\<open>const uuid = () => Date.now().toString() +
  Math.round(Math.random() * 256).toString(16)\<close>, as a function of what the invocation
  observes.
\<close>

definition uuid :: "env \<Rightarrow> string" where
  "uuid e = Number_toString 10 (now e) @ Number_toString 16 (Math_round (random e * 256))"

text \<open>
  \<^verbatim>\<open>type Sender<I, O> = (name, makeToken, input) => Promise<O>\<close>. The send function
  is the transport's code; like a handler it acts on the world. It calls the token
  factory by applying it to what the clock and the random source show at that moment.
\<close>

type_synonym ('i, 'o, 'w) Sender =
  "string \<Rightarrow> (env \<Rightarrow> string) \<Rightarrow> 'i \<Rightarrow> 'w \<Rightarrow> 'o promise \<times> 'w"

text \<open>\<^verbatim>\<open>realize(decl)(send)(input)\<close>.\<close>

definition realize ::
  "NamedFnDef \<Rightarrow> ('i, 'o, 'w) Sender \<Rightarrow> 'i \<Rightarrow> 'w \<Rightarrow> 'o promise \<times> 'w" where
  "realize decl send input w =
     (case send (name decl) uuid input w of
        (p, w') \<Rightarrow> (async_await p (\<lambda>v. v), w'))"

section \<open>The declarations of the README\<close>

text \<open>
  The example of the README: the declaration \<^verbatim>\<open>Add\<close> with the input shape
  \<^verbatim>\<open>{a: number, b: number}\<close>, and its handler, which returns \<^verbatim>\<open>a + b\<close>. The world
  of the examples is the list of the names of the handlers that have run.
\<close>

definition Add_input :: "jsval Type" where
  "Add_input v =
     (case v of
        JObj ps \<Rightarrow>
          (case (map_of ps ''a'', map_of ps ''b'') of
             (Some (JNum a), Some (JNum b)) \<Rightarrow> Inr v
           | _ \<Rightarrow> Inl ''left'')
      | _ \<Rightarrow> Inl ''left'')"

definition Calls_Add :: NamedFnDef where
  "Calls_Add = \<lparr>name = ''Add'', thunk = \<lparr>i_type = Add_input, o_type = t_any\<rparr>\<rparr>"

definition add :: "(unit, string list) AsyncFnCall" where
  "add =
     AsyncFnCall (\<lambda>context msg w.
       case msg of
         JObj ps \<Rightarrow>
           (case (map_of ps ''a'', map_of ps ''b'') of
              (Some (JNum a), Some (JNum b)) \<Rightarrow> (Resolved (JNum (a + b)), w @ [''Add''], [])
            | _ \<Rightarrow> (Rejected TypeError, w @ [''Add''], []))
       | _ \<Rightarrow> (Rejected TypeError, w @ [''Add''], []))"

text \<open>A declaration that accepts any input, and handlers that log their tag.\<close>

definition Calls_Any :: "string \<Rightarrow> NamedFnDef" where
  "Calls_Any nm = \<lparr>name = nm, thunk = \<lparr>i_type = t_any, o_type = t_any\<rparr>\<rparr>"

definition resolving :: "string \<Rightarrow> jsval \<Rightarrow> (unit, string list) AsyncFnCall" where
  "resolving tag v = AsyncFnCall (\<lambda>context msg w. (Resolved v, w @ [tag], []))"

definition rejecting :: "string \<Rightarrow> exn \<Rightarrow> (unit, string list) AsyncFnCall" where
  "rejecting tag e = AsyncFnCall (\<lambda>context msg w. (Rejected e, w @ [tag], []))"


definition add_msg :: "string \<Rightarrow> jsval" where
  "add_msg tok = JArr [JStr ''Add'', JStr tok, JObj [(''a'', JNum 1), (''b'', JNum 2)]]"

definition server :: "(unit, string list) FunctionHandler" where
  "server = load new_FunctionHandler [(Calls_Add, add)]"

text \<open>A registry whose only handler fails with a value of its own.\<close>

definition failing_server :: "(unit, string list) FunctionHandler" where
  "failing_server =
     register new_FunctionHandler Calls_Add (rejecting ''Add'' (Thrown (JStr ''boom'')))"



text \<open>The recursive equation of \<open>digits\<close> is unfolded by hand only.\<close>

declare digits.simps [simp del]


section \<open>Properties of the registry\<close>

lemma registry_get_set_same:
  "registry_get (registry_set r k e) k = Entry e"
  unfolding registry_get_def registry_set_def
  by (cases "k = ''__proto__''") simp_all

lemma registry_get_proto:
  "registry_get r ''__proto__'' = (case proto r of None \<Rightarrow> Inherited | Some e \<Rightarrow> Entry e)"
  unfolding registry_get_def by simp

lemma registry_get_own:
  "k \<noteq> ''__proto__'' \<Longrightarrow> (registry_get r k = Entry e) = (own r k = Some e)"
  unfolding registry_get_def by (cases "own r k") simp_all

lemma registry_set_proto: "registry_set r ''__proto__'' e = r\<lparr>proto := Some e\<rparr>"
  unfolding registry_set_def by simp

lemma registry_set_own: "k \<noteq> ''__proto__'' \<Longrightarrow> registry_set r k e = r\<lparr>own := (own r)(k \<mapsto> e)\<rparr>"
  unfolding registry_set_def by simp

lemma registry_get_set_other:
  assumes "k \<noteq> k'" and "registry_get r k = Entry e"
  shows "registry_get (registry_set r k' e') k = Entry e"
proof (cases "k = ''__proto__''")
  case True
  with assms(1) have k': "k' \<noteq> ''__proto__''" by simp
  from assms(2) have "proto r = Some e"
    unfolding True registry_get_proto by (simp split: option.splits)
  then show ?thesis
    unfolding True registry_get_proto registry_set_own[OF k'] by simp
next
  case False
  with assms(2) have o: "own r k = Some e" by (simp add: registry_get_own)
  show ?thesis
  proof (cases "k' = ''__proto__''")
    case True
    show ?thesis unfolding True registry_set_proto registry_get_own[OF False] using o by simp
  next
    case k': False
    show ?thesis unfolding registry_set_own[OF k'] registry_get_own[OF False]
      using o assms(1) by simp
  qed
qed

lemma registry_register:
  "registry_get (registry (register this d f)) (name d) = Entry \<lparr>fn = f, type = thunk d\<rparr>"
  by (simp add: register_def registry_get_set_same)

lemma register_preserves_entry:
  "k \<noteq> name d \<Longrightarrow> registry_get (registry this) k = Entry e \<Longrightarrow>
   registry_get (registry (register this d f)) k = Entry e"
  by (simp add: register_def registry_get_set_other)

lemma load_Nil: "load this [] = this"
  by (simp add: load_def)

lemma load_Cons: "load this ((d, f) # loader) = load (register this d f) loader"
  by (simp add: load_def)

lemma load_append: "load this (xs @ ys) = load (load this xs) ys"
  by (simp add: load_def)

lemma load_preserves_entry:
  "k \<notin> set (map (name \<circ> fst) loader) \<Longrightarrow> registry_get (registry this) k = Entry e \<Longrightarrow>
   registry_get (registry (load this loader)) k = Entry e"
proof (induction loader arbitrary: this)
  case Nil
  then show ?case by (simp add: load_Nil)
next
  case (Cons x loader)
  obtain d f where x: "x = (d, f)" by (cases x)
  from Cons.prems have k: "k \<noteq> name d" and rest: "k \<notin> set (map (name \<circ> fst) loader)"
    by (auto simp: x)
  have "registry_get (registry (register this d f)) k = Entry e"
    using k Cons.prems(2) by (rule register_preserves_entry)
  with rest show ?case
    unfolding x load_Cons by (rule Cons.IH)
qed

lemma load_distinct_entry:
  "distinct (map (name \<circ> fst) loader) \<Longrightarrow> (d, f) \<in> set loader \<Longrightarrow>
   registry_get (registry (load this loader)) (name d) = Entry \<lparr>fn = f, type = thunk d\<rparr>"
proof (induction loader arbitrary: this)
  case Nil
  then show ?case by simp
next
  case (Cons x loader)
  obtain d' f' where x: "x = (d', f')" by (cases x)
  from Cons.prems(1) have fresh: "name d' \<notin> set (map (name \<circ> fst) loader)"
    and dist: "distinct (map (name \<circ> fst) loader)"
    by (simp_all add: x o_def)
  show ?case
  proof (cases "(d, f) \<in> set loader")
    case True
    with dist show ?thesis unfolding x load_Cons by (rule Cons.IH)
  next
    case False
    with Cons.prems(2) have eq: "d' = d" "f' = f" by (auto simp: x)
    show ?thesis
      unfolding x load_Cons eq
      using fresh[unfolded eq] registry_register
      by (rule load_preserves_entry)
  qed
qed

section \<open>Properties of a dispatch\<close>

lemma call_payload_error:
  "Payload msg = Inl d \<Longrightarrow>
   call this ctx msg w = (Rejected (Error (''Payload error: '' @ d)), this, w)"
  by (simp add: call_def)

lemma call_handler_missing:
  "Payload msg = Inr (nm, tok, args) \<Longrightarrow> registry_get (registry this) nm = Undefined \<Longrightarrow>
   call this ctx msg w = (Rejected (Error (''Handler missing for '' @ nm)), this, w)"
  by (simp add: call_def)

lemma call_inherited:
  "Payload msg = Inr (nm, tok, args) \<Longrightarrow> registry_get (registry this) nm = Inherited \<Longrightarrow>
   call this ctx msg w = (Rejected TypeError, this, w)"
  by (simp add: call_def)

lemma call_invalid_input:
  "Payload msg = Inr (nm, tok, args) \<Longrightarrow> registry_get (registry this) nm = Entry h \<Longrightarrow>
   i_type (type h) args = Inl d \<Longrightarrow>
   call this ctx msg w =
     (Rejected (Error (''Invalid input for '' @ nm @ '': '' @ d)), this, w)"
  by (simp add: call_def)

lemma call_invokes:
  "Payload msg = Inr (nm, tok, args) \<Longrightarrow> registry_get (registry this) nm = Entry h \<Longrightarrow>
   i_type (type h) args = Inr input \<Longrightarrow> run (fn h) ctx input w = (p, w', ws) \<Longrightarrow>
   call this ctx msg w =
     (async_await p (\<lambda>r. \<lparr>token = tok, result = r\<rparr>), perform this ws, w')"
  by (simp add: call_def)

lemma perform_Nil: "perform this [] = this"
  by (simp add: perform_def)




lemma Payload_envelope: "Payload (JArr [JStr nm, JStr tok, args]) = Inr (nm, tok, args)"
  by (simp add: Payload_def t_any_def)

lemma server_Add: "registry_get (registry server) ''Add'' = Entry \<lparr>fn = add, type = thunk Calls_Add\<rparr>"
  using registry_register[of new_FunctionHandler Calls_Add add]
  by (simp add: server_def load_Cons load_Nil Calls_Add_def)

lemma async_await_id: "async_await p (\<lambda>v. v) = p"
  by (cases p) simp_all

lemma async_await_comp: "async_await (async_await p g) h = async_await p (\<lambda>v. h (g v))"
  by (cases p) simp_all

lemma new_toString: "registry_get (registry new_FunctionHandler) ''toString'' = Inherited"
  by (simp add: registry_get_def new_FunctionHandler_def Object_prototype_def)

lemma add_msg_Payload:
  "Payload (add_msg tok) = Inr (''Add'', tok, JObj [(''a'', JNum 1), (''b'', JNum 2)])"
  unfolding add_msg_def by (rule Payload_envelope)

lemma Add_input_ok:
  "i_type (thunk Calls_Add) (JObj [(''a'', JNum 1), (''b'', JNum 2)]) =
     Inr (JObj [(''a'', JNum 1), (''b'', JNum 2)])"
  by (simp add: Calls_Add_def Add_input_def)

lemma add_ok:
  "run add () (JObj [(''a'', JNum 1), (''b'', JNum 2)]) w = (Resolved (JNum 3), w @ [''Add''], [])"
  by (simp add: add_def)




lemma new_Add: "registry_get (registry new_FunctionHandler) ''Add'' = Undefined"
  by (simp add: registry_get_def new_FunctionHandler_def Object_prototype_def)

lemma mimic_Add:
  "registry_get
     (registry (register new_FunctionHandler Calls_Add
        (rejecting ''Add'' (Error ''Handler missing for Add'')))) ''Add'' =
   Entry \<lparr>fn = rejecting ''Add'' (Error ''Handler missing for Add''), type = thunk Calls_Add\<rparr>"
  using registry_register[of new_FunctionHandler Calls_Add
      "rejecting ''Add'' (Error ''Handler missing for Add'')"]
  by (simp add: Calls_Add_def)

lemma failing_server_Add:
  "registry_get (registry failing_server) ''Add'' =
   Entry \<lparr>fn = rejecting ''Add'' (Thrown (JStr ''boom'')), type = thunk Calls_Add\<rparr>"
  using registry_register[of new_FunctionHandler Calls_Add
      "rejecting ''Add'' (Thrown (JStr ''boom''))"]
  by (simp add: Calls_Add_def failing_server_def)

lemma failing_server_Nope: "registry_get (registry failing_server) ''Nope'' = Undefined"
  by (simp add: failing_server_def register_def registry_set_def registry_get_def
      new_FunctionHandler_def Object_prototype_def Calls_Add_def)

section \<open>Properties of the number renderings\<close>

lemma digits_small: "n < b \<Longrightarrow> digits b n = [digit_char n]"
  by (subst digits.simps) simp

lemma digits_step:
  "2 \<le> b \<Longrightarrow> b \<le> n \<Longrightarrow> digits b n = digits b (n div b) @ [digit_char (n mod b)]"
  by (subst digits.simps) simp

lemma digits_not_Nil: "digits b n \<noteq> []"
  by (subst digits.simps) simp

lemma distinct_digit_chars: "distinct ''0123456789abcdefghijklmnopqrstuvwxyz''"
  by simp

lemma digit_char_inj:
  assumes "m < 36" and "n < 36" and "digit_char m = digit_char n"
  shows "m = n"
proof -
  have "length ''0123456789abcdefghijklmnopqrstuvwxyz'' = 36" by simp
  with assms show ?thesis
    unfolding digit_char_def
    by (simp only: nth_eq_iff_index_eq[OF distinct_digit_chars])
qed

lemma digit_char_not_minus:
  assumes "d < 36"
  shows "digit_char d \<noteq> CHR ''-''"
proof -
  have "digit_char d \<in> set ''0123456789abcdefghijklmnopqrstuvwxyz''"
    unfolding digit_char_def using assms by (intro nth_mem) simp
  then show ?thesis by auto
qed

lemma digits_inj:
  "2 \<le> b \<Longrightarrow> b \<le> 36 \<Longrightarrow> digits b m = digits b n \<Longrightarrow> m = n"
proof (induction b m arbitrary: n rule: digits.induct)
  case (1 b m)
  note b = \<open>2 \<le> b\<close> \<open>b \<le> 36\<close>
  show ?case
  proof (cases "m < b")
    case m: True
    show ?thesis
    proof (cases "n < b")
      case n: True
      from "1.prems"(3) have "digit_char m = digit_char n"
        by (simp add: digits_small m n)
      moreover have "m < 36" "n < 36" using m n b by simp_all
      ultimately show ?thesis by (simp add: digit_char_inj)
    next
      case False
      then have "digits b n = digits b (n div b) @ [digit_char (n mod b)]"
        using b by (simp add: digits_step)
      with "1.prems"(3) have "digits b (n div b) = []"
        by (simp add: digits_small m)
      then show ?thesis by (simp add: digits_not_Nil)
    qed
  next
    case m: False
    then have dm: "digits b m = digits b (m div b) @ [digit_char (m mod b)]"
      using b by (simp add: digits_step)
    show ?thesis
    proof (cases "n < b")
      case n: True
      with "1.prems"(3) dm have "digits b (m div b) = []"
        by (simp add: digits_small)
      then show ?thesis by (simp add: digits_not_Nil)
    next
      case False
      then have dn: "digits b n = digits b (n div b) @ [digit_char (n mod b)]"
        using b by (simp add: digits_step)
      from "1.prems"(3) have hi: "digits b (m div b) = digits b (n div b)"
        and lo: "digit_char (m mod b) = digit_char (n mod b)"
        unfolding dm dn by simp_all
      have "\<not> (m < b \<or> b < 2)" using m b by simp
      then have q: "m div b = n div b" using b hi by (rule "1.IH")
      have "m mod b < 36" "n mod b < 36"
        using b by (simp_all add: less_le_trans[OF mod_less_divisor])
      with lo have r: "m mod b = n mod b" by (simp add: digit_char_inj)
      have "m = b * (m div b) + m mod b" by simp
      also have "\<dots> = b * (n div b) + n mod b" by (simp only: q r)
      also have "\<dots> = n" by simp
      finally show ?thesis .
    qed
  qed
qed

lemma digits_no_minus:
  "2 \<le> b \<Longrightarrow> b \<le> 36 \<Longrightarrow> CHR ''-'' \<notin> set (digits b n)"
proof (induction b n rule: digits.induct)
  case (1 b n)
  note b = \<open>2 \<le> b\<close> \<open>b \<le> 36\<close>
  show ?case
  proof (cases "n < b")
    case True
    then have "n < 36" using b by simp
    then show ?thesis using True digit_char_not_minus[of n] by (auto simp: digits_small)
  next
    case False
    then have dn: "digits b n = digits b (n div b) @ [digit_char (n mod b)]"
      using b by (simp add: digits_step)
    have "\<not> (n < b \<or> b < 2)" using False b by simp
    then have "CHR ''-'' \<notin> set (digits b (n div b))" using b by (rule "1.IH")
    moreover have "n mod b < 36" using b by (simp add: less_le_trans[OF mod_less_divisor])
    ultimately show ?thesis using digit_char_not_minus[of "n mod b"] by (auto simp: dn)
  qed
qed

lemma Number_toString_inj:
  assumes b: "2 \<le> b" "b \<le> 36" and eq: "Number_toString b x = Number_toString b y"
  shows "x = y"
proof -
  have neg: False if "CHR ''-'' # digits b m = digits b n" for m n
  proof -
    have "CHR ''-'' \<in> set (digits b n)" unfolding that[symmetric] by simp
    with digits_no_minus[OF b] show False by simp
  qed
  consider "x < 0" "y < 0" | "x < 0" "\<not> y < 0" | "\<not> x < 0" "y < 0" | "\<not> x < 0" "\<not> y < 0"
    by blast
  then show ?thesis
  proof cases
    case 1
    with eq have "digits b (nat (- x)) = digits b (nat (- y))"
      by (simp add: Number_toString_def)
    then have "nat (- x) = nat (- y)" using b by (simp add: digits_inj)
    with 1 show ?thesis by simp
  next
    case 2
    with eq have "CHR ''-'' # digits b (nat (- x)) = digits b (nat y)"
      by (simp add: Number_toString_def)
    then show ?thesis using neg by blast
  next
    case 3
    with eq have "CHR ''-'' # digits b (nat (- y)) = digits b (nat x)"
      by (simp add: Number_toString_def)
    then show ?thesis using neg by blast
  next
    case 4
    with eq have "digits b (nat x) = digits b (nat y)"
      by (simp add: Number_toString_def)
    then have "nat x = nat y" using b by (simp add: digits_inj)
    with 4 show ?thesis by simp
  qed
qed

lemma round_half: "Math_round 128 = 128"
  unfolding Math_round_def by (simp add: floor_unique)

lemma round_above_half: "Math_round (513 / 4) = 128"
  unfolding Math_round_def by (simp add: floor_unique)

lemma digits_now: "digits 10 1700000000000 = ''1700000000000''"
  by (simp add: digits.simps[of 10] digit_char_def)

lemma digits_salt: "digits 16 128 = ''80''"
  by (simp add: digits.simps[of 16] digit_char_def)

section \<open>The properties of the specification\<close>

subsection \<open>C1: the order of the checks\<close>

text \<open>
  C1. The dispatcher checks the envelope, then the registry, then the payload, and a
  name that is absent from the registry fails as an unknown function. The order holds
  (lemmas \<open>call_payload_error\<close>, \<open>call_handler_missing\<close>, \<open>call_invalid_input\<close>),
  but the lookup \<^verbatim>\<open>this.registry[name]\<close> also finds what the registry object
  inherits: on a registry in which nothing was registered, the name \<^verbatim>\<open>toString\<close>
  passes the test \<^verbatim>\<open>if (!handler)\<close>, and the dispatch fails with the
  \<^verbatim>\<open>TypeError\<close> of reading \<^verbatim>\<open>handler.type.i\<close>, not with
  \<^verbatim>\<open>Handler missing for toString\<close>.
\<close>

theorem call_inherited_name:
  "fst (call (new_FunctionHandler :: (unit, unit) FunctionHandler) ()
          (JArr [JStr ''toString'', JStr ''t'', JObj []]) ()) = Rejected TypeError \<and>
   fst (call (new_FunctionHandler :: (unit, unit) FunctionHandler) ()
          (JArr [JStr ''toString'', JStr ''t'', JObj []]) ()) \<noteq>
     Rejected (Error ''Handler missing for toString'')"
  by (simp add: call_inherited[OF Payload_envelope new_toString])

subsection \<open>C2: the reply of a successful dispatch\<close>

text \<open>
  C2. When the name \<open>N\<close> of the envelope is registered, the payload passes the input
  validator of \<open>N\<close> and the handler resolves to \<open>v\<close>, the dispatch resolves to
  \<^verbatim>\<open>{ token, result }\<close> with the token of the envelope, whatever it is (the empty
  string included), and the result \<open>v\<close>; the handler's effect on the world is kept,
  and the object afterwards is the object with the handler's own writes.
\<close>

theorem call_resolves:
  assumes "registry_get (registry this) N = Entry e"
    and "Payload msg = Inr (N, tok, payload)"
    and "i_type (type e) payload = Inr input"
    and "run (fn e) ctx input w = (Resolved v, w', ws)"
  shows "call this ctx msg w =
         (Resolved \<lparr>token = tok, result = v\<rparr>, perform this ws, w')"
  using call_invokes[OF assms(2) assms(1) assms(3) assms(4)] by simp

theorem call_resolves_witness:
  "registry_get (registry server) ''Add'' = Entry \<lparr>fn = add, type = thunk Calls_Add\<rparr> \<and>
   Payload (add_msg '''') = Inr (''Add'', '''', JObj [(''a'', JNum 1), (''b'', JNum 2)]) \<and>
   i_type (type \<lparr>fn = add, type = thunk Calls_Add\<rparr>) (JObj [(''a'', JNum 1), (''b'', JNum 2)]) =
     Inr (JObj [(''a'', JNum 1), (''b'', JNum 2)]) \<and>
   run (fn \<lparr>fn = add, type = thunk Calls_Add\<rparr>) () (JObj [(''a'', JNum 1), (''b'', JNum 2)]) [] =
     (Resolved (JNum 3), [''Add''], []) \<and>
   call server () (add_msg '''') [] =
     (Resolved \<lparr>token = '''', result = JNum 3\<rparr>, server, [''Add''])"
proof -
  have h1: "registry_get (registry server) ''Add'' = Entry \<lparr>fn = add, type = thunk Calls_Add\<rparr>"
    by (rule server_Add)
  have h2: "Payload (add_msg '''') = Inr (''Add'', '''', JObj [(''a'', JNum 1), (''b'', JNum 2)])"
    by (rule add_msg_Payload)
  have h3: "i_type (type \<lparr>fn = add, type = thunk Calls_Add\<rparr>)
      (JObj [(''a'', JNum 1), (''b'', JNum 2)]) = Inr (JObj [(''a'', JNum 1), (''b'', JNum 2)])"
    by (simp add: Add_input_ok)
  have h4: "run (fn \<lparr>fn = add, type = thunk Calls_Add\<rparr>) ()
      (JObj [(''a'', JNum 1), (''b'', JNum 2)]) [] = (Resolved (JNum 3), [''Add''], [])"
    by (simp add: add_ok)
  from call_resolves[OF h1 h2 h3 h4] h1 h2 h3 h4 show ?thesis by (simp add: perform_Nil)
qed

subsection \<open>C3: the handler that runs\<close>

text \<open>
  C3. In a registry loaded from declarations with pairwise distinct names, a well-formed
  envelope that carries the name of the declaration \<open>d\<close>, registered with the handler
  \<open>f\<close>, is decided by \<open>d\<close> and \<open>f\<close> alone: when the payload passes the input
  validator of \<open>d\<close>, the promise and the world after the dispatch are exactly those
  of one run of \<open>f\<close>, so no other handler has run; when it does not pass, the
  dispatch fails and the world is untouched.
\<close>

theorem call_dispatches_registered:
  assumes "distinct (map (name \<circ> fst) loader)"
    and "(d, f) \<in> set loader"
    and "Payload msg = Inr (name d, tok, args)"
  shows "call (load this loader) ctx msg w =
     (case i_type (thunk d) args of
        Inl s \<Rightarrow>
          (Rejected (Error (''Invalid input for '' @ name d @ '': '' @ s)), load this loader, w)
      | Inr input \<Rightarrow>
          (case run f ctx input w of
             (p, w', ws) \<Rightarrow>
               (async_await p (\<lambda>r. \<lparr>token = tok, result = r\<rparr>),
                perform (load this loader) ws, w')))"
proof -
  have e: "registry_get (registry (load this loader)) (name d) = Entry \<lparr>fn = f, type = thunk d\<rparr>"
    using assms(1,2) by (rule load_distinct_entry)
  show ?thesis
  proof (cases "i_type (thunk d) args")
    case (Inl s)
    then have "i_type (type \<lparr>fn = f, type = thunk d\<rparr>) args = Inl s" by simp
    with assms(3) e show ?thesis by (simp add: call_invalid_input Inl)
  next
    case (Inr input)
    obtain p w' ws where r: "run f ctx input w = (p, w', ws)" by (cases "run f ctx input w")
    have "i_type (type \<lparr>fn = f, type = thunk d\<rparr>) args = Inr input" using Inr by simp
    moreover have "run (fn \<lparr>fn = f, type = thunk d\<rparr>) ctx input w = (p, w', ws)"
      using r by simp
    ultimately have "call (load this loader) ctx msg w =
        (async_await p (\<lambda>r. \<lparr>token = tok, result = r\<rparr>),
         perform (load this loader) ws, w')"
      using assms(3) e by (simp add: call_invokes)
    then show ?thesis by (simp add: Inr r)
  qed
qed

theorem call_dispatches_registered_witness:
  "distinct (map (name \<circ> fst) [(Calls_Add, add), (Calls_Any ''Other'', resolving ''Other'' JNull)]) \<and>
   (Calls_Add, add) \<in> set [(Calls_Add, add), (Calls_Any ''Other'', resolving ''Other'' JNull)] \<and>
   Payload (add_msg ''tok1'') =
     Inr (name Calls_Add, ''tok1'', JObj [(''a'', JNum 1), (''b'', JNum 2)]) \<and>
   call (load new_FunctionHandler
          [(Calls_Add, add), (Calls_Any ''Other'', resolving ''Other'' JNull)]) ()
        (add_msg ''tok1'') [] =
     (Resolved \<lparr>token = ''tok1'', result = JNum 3\<rparr>,
      load new_FunctionHandler [(Calls_Add, add), (Calls_Any ''Other'', resolving ''Other'' JNull)],
      [''Add''])"
proof -
  have h1: "distinct (map (name \<circ> fst)
      [(Calls_Add, add), (Calls_Any ''Other'', resolving ''Other'' JNull)])"
    by (simp add: Calls_Add_def Calls_Any_def)
  have h2: "(Calls_Add, add) \<in>
      set [(Calls_Add, add), (Calls_Any ''Other'', resolving ''Other'' JNull)]"
    by simp
  have h3: "Payload (add_msg ''tok1'') =
      Inr (name Calls_Add, ''tok1'', JObj [(''a'', JNum 1), (''b'', JNum 2)])"
    by (simp add: add_msg_Payload Calls_Add_def)
  from call_dispatches_registered[OF h1 h2 h3, of new_FunctionHandler "()" "[]"] h1 h2 h3
  show ?thesis by (simp add: Add_input_ok add_ok perform_Nil)
qed

subsection \<open>C4: failures\<close>

text \<open>
  C4, as stated: a failure of the handler reaches the caller as a kind of its own,
  which the transport can tell from the three failures of the dispatcher. A handler
  registered as \<^verbatim>\<open>Add\<close> that rejects with \<^verbatim>\<open>new Error("Handler missing for Add")\<close>
  makes the dispatch reject with the very value that the dispatch of the same envelope
  on an empty registry rejects with; the worlds show that the handler ran in the first
  dispatch only.
\<close>

theorem call_failure_indistinguishable:
  "call (register new_FunctionHandler Calls_Add
           (rejecting ''Add'' (Error ''Handler missing for Add''))) () (add_msg ''t'') [] =
     (Rejected (Error ''Handler missing for Add''),
      register new_FunctionHandler Calls_Add
        (rejecting ''Add'' (Error ''Handler missing for Add'')),
      [''Add'']) \<and>
   call (new_FunctionHandler :: (unit, string list) FunctionHandler) () (add_msg ''t'') [] =
     (Rejected (Error ''Handler missing for Add''), new_FunctionHandler, [])"
proof
  have i: "i_type (type \<lparr>fn = rejecting ''Add'' (Error ''Handler missing for Add''),
      type = thunk Calls_Add\<rparr>) (JObj [(''a'', JNum 1), (''b'', JNum 2)]) =
      Inr (JObj [(''a'', JNum 1), (''b'', JNum 2)])"
    by (simp add: Add_input_ok)
  have f: "run (fn \<lparr>fn = rejecting ''Add'' (Error ''Handler missing for Add''),
      type = thunk Calls_Add\<rparr>) () (JObj [(''a'', JNum 1), (''b'', JNum 2)]) [] =
      (Rejected (Error ''Handler missing for Add''), [''Add''], [])"
    by (simp add: rejecting_def)
  have "call (register new_FunctionHandler Calls_Add
           (rejecting ''Add'' (Error ''Handler missing for Add''))) () (add_msg ''t'') [] =
     (async_await (Rejected (Error ''Handler missing for Add''))
        (\<lambda>r. \<lparr>token = ''t'', result = r\<rparr>),
      perform (register new_FunctionHandler Calls_Add
        (rejecting ''Add'' (Error ''Handler missing for Add''))) [],
      [''Add''])"
    by (rule call_invokes[OF add_msg_Payload mimic_Add i f])
  then show "call (register new_FunctionHandler Calls_Add
           (rejecting ''Add'' (Error ''Handler missing for Add''))) () (add_msg ''t'') [] =
     (Rejected (Error ''Handler missing for Add''),
      register new_FunctionHandler Calls_Add
        (rejecting ''Add'' (Error ''Handler missing for Add'')),
      [''Add''])"
    by (simp add: perform_Nil)
  show "call (new_FunctionHandler :: (unit, string list) FunctionHandler) () (add_msg ''t'') [] =
     (Rejected (Error ''Handler missing for Add''), new_FunctionHandler, [])"
    using call_handler_missing[OF add_msg_Payload new_Add] by simp
qed

text \<open>
  C4, amended. When the invoked handler rejects with \<open>e\<close>, the dispatch rejects with
  \<open>e\<close> itself, unwrapped, after one run of the handler, whose effect on the world is
  kept. The failures of the three checks are plain \<^verbatim>\<open>Error\<close> values with the messages
  \<^verbatim>\<open>Payload error: ..\<close>, \<^verbatim>\<open>Handler missing for <name>\<close> and
  \<^verbatim>\<open>Invalid input for <name>: ..\<close>, and these three differ from one another. A
  failure of the handler carries no mark of its own.
\<close>

theorem call_failure_kinds:
  "(Payload msg = Inr (nm, tok, args) \<longrightarrow> registry_get (registry this) nm = Entry h \<longrightarrow>
    i_type (type h) args = Inr input \<longrightarrow> run (fn h) ctx input w = (Rejected e, w', ws) \<longrightarrow>
      call this ctx msg w = (Rejected e, perform this ws, w')) \<and>
   (Payload m1 = Inl d1 \<longrightarrow>
    Payload m2 = Inr (n2, t2, a2) \<longrightarrow> registry_get (registry this) n2 = Undefined \<longrightarrow>
    Payload m3 = Inr (n3, t3, a3) \<longrightarrow> registry_get (registry this) n3 = Entry h3 \<longrightarrow>
    i_type (type h3) a3 = Inl d3 \<longrightarrow>
      fst (call this c1 m1 w1) = Rejected (Error (''Payload error: '' @ d1)) \<and>
      fst (call this c2 m2 w2) = Rejected (Error (''Handler missing for '' @ n2)) \<and>
      fst (call this c3 m3 w3) = Rejected (Error (''Invalid input for '' @ n3 @ '': '' @ d3)) \<and>
      fst (call this c1 m1 w1) \<noteq> fst (call this c2 m2 w2) \<and>
      fst (call this c1 m1 w1) \<noteq> fst (call this c3 m3 w3) \<and>
      fst (call this c2 m2 w2) \<noteq> fst (call this c3 m3 w3))"
proof (intro conjI impI)
  assume "Payload msg = Inr (nm, tok, args)" "registry_get (registry this) nm = Entry h"
    "i_type (type h) args = Inr input" "run (fn h) ctx input w = (Rejected e, w', ws)"
  then have "call this ctx msg w =
      (async_await (Rejected e) (\<lambda>r. \<lparr>token = tok, result = r\<rparr>), perform this ws, w')"
    by (rule call_invokes)
  then show "call this ctx msg w = (Rejected e, perform this ws, w')" by simp
next
  assume a: "Payload m1 = Inl d1" "Payload m2 = Inr (n2, t2, a2)"
    "registry_get (registry this) n2 = Undefined" "Payload m3 = Inr (n3, t3, a3)"
    "registry_get (registry this) n3 = Entry h3" "i_type (type h3) a3 = Inl d3"
  show 1: "fst (call this c1 m1 w1) = Rejected (Error (''Payload error: '' @ d1))"
    using a(1) by (simp add: call_payload_error)
  show 2: "fst (call this c2 m2 w2) = Rejected (Error (''Handler missing for '' @ n2))"
    using a(2,3) by (simp add: call_handler_missing)
  show 3: "fst (call this c3 m3 w3) = Rejected (Error (''Invalid input for '' @ n3 @ '': '' @ d3))"
    using a(4,5,6) by (simp add: call_invalid_input)
  show "fst (call this c1 m1 w1) \<noteq> fst (call this c2 m2 w2)" unfolding 1 2 by simp
  show "fst (call this c1 m1 w1) \<noteq> fst (call this c3 m3 w3)" unfolding 1 3 by simp
  show "fst (call this c2 m2 w2) \<noteq> fst (call this c3 m3 w3)" unfolding 2 3 by simp
qed

theorem call_failure_kinds_witness:
  "Payload (add_msg ''t'') = Inr (''Add'', ''t'', JObj [(''a'', JNum 1), (''b'', JNum 2)]) \<and>
   registry_get (registry failing_server) ''Add'' =
     Entry \<lparr>fn = rejecting ''Add'' (Thrown (JStr ''boom'')), type = thunk Calls_Add\<rparr> \<and>
   i_type (type \<lparr>fn = rejecting ''Add'' (Thrown (JStr ''boom'')), type = thunk Calls_Add\<rparr>)
     (JObj [(''a'', JNum 1), (''b'', JNum 2)]) = Inr (JObj [(''a'', JNum 1), (''b'', JNum 2)]) \<and>
   run (fn \<lparr>fn = rejecting ''Add'' (Thrown (JStr ''boom'')), type = thunk Calls_Add\<rparr>) ()
     (JObj [(''a'', JNum 1), (''b'', JNum 2)]) [] =
     (Rejected (Thrown (JStr ''boom'')), [''Add''], []) \<and>
   call failing_server () (add_msg ''t'') [] =
     (Rejected (Thrown (JStr ''boom'')), failing_server, [''Add'']) \<and>
   Payload JNull = Inl ''left'' \<and>
   Payload (JArr [JStr ''Nope'', JStr ''t'', JNull]) = Inr (''Nope'', ''t'', JNull) \<and>
   registry_get (registry failing_server) ''Nope'' = Undefined \<and>
   Payload (JArr [JStr ''Add'', JStr ''t'', JObj [(''a'', JStr ''x'')]]) =
     Inr (''Add'', ''t'', JObj [(''a'', JStr ''x'')]) \<and>
   i_type (type \<lparr>fn = rejecting ''Add'' (Thrown (JStr ''boom'')), type = thunk Calls_Add\<rparr>)
     (JObj [(''a'', JStr ''x'')]) = Inl ''left'' \<and>
   fst (call failing_server () JNull []) = Rejected (Error ''Payload error: left'') \<and>
   fst (call failing_server () (JArr [JStr ''Nope'', JStr ''t'', JNull]) []) =
     Rejected (Error ''Handler missing for Nope'') \<and>
   fst (call failing_server () (JArr [JStr ''Add'', JStr ''t'', JObj [(''a'', JStr ''x'')]]) []) =
     Rejected (Error ''Invalid input for Add: left'')"
proof -
  note h1 = add_msg_Payload[of "''t''"]
  note h2 = failing_server_Add
  have h3: "i_type (type \<lparr>fn = rejecting ''Add'' (Thrown (JStr ''boom'')), type = thunk Calls_Add\<rparr>)
     (JObj [(''a'', JNum 1), (''b'', JNum 2)]) = Inr (JObj [(''a'', JNum 1), (''b'', JNum 2)])"
    by (simp add: Add_input_ok)
  have h4: "run (fn \<lparr>fn = rejecting ''Add'' (Thrown (JStr ''boom'')), type = thunk Calls_Add\<rparr>) ()
     (JObj [(''a'', JNum 1), (''b'', JNum 2)]) [] =
     (Rejected (Thrown (JStr ''boom'')), [''Add''], [])"
    by (simp add: rejecting_def)
  have h5: "Payload JNull = Inl ''left''"
    by (simp add: Payload_def)
  have h6: "Payload (JArr [JStr ''Nope'', JStr ''t'', JNull]) = Inr (''Nope'', ''t'', JNull)"
    by (rule Payload_envelope)
  note h7 = failing_server_Nope
  have h8: "Payload (JArr [JStr ''Add'', JStr ''t'', JObj [(''a'', JStr ''x'')]]) =
     Inr (''Add'', ''t'', JObj [(''a'', JStr ''x'')])"
    by (rule Payload_envelope)
  have h9: "i_type (type \<lparr>fn = rejecting ''Add'' (Thrown (JStr ''boom'')), type = thunk Calls_Add\<rparr>)
     (JObj [(''a'', JStr ''x'')]) = Inl ''left''"
    by (simp add: Calls_Add_def Add_input_def)
  from call_failure_kinds[of "add_msg ''t''" "''Add''" "''t''"
      "JObj [(''a'', JNum 1), (''b'', JNum 2)]" failing_server
      "\<lparr>fn = rejecting ''Add'' (Thrown (JStr ''boom'')), type = thunk Calls_Add\<rparr>"
      "JObj [(''a'', JNum 1), (''b'', JNum 2)]" "()" "[]" "Thrown (JStr ''boom'')" "[''Add'']"
      "[]" JNull "''left''" "JArr [JStr ''Nope'', JStr ''t'', JNull]" "''Nope''" "''t''" JNull
      "JArr [JStr ''Add'', JStr ''t'', JObj [(''a'', JStr ''x'')]]" "''Add''" "''t''"
      "JObj [(''a'', JStr ''x'')]"
      "\<lparr>fn = rejecting ''Add'' (Thrown (JStr ''boom'')), type = thunk Calls_Add\<rparr>" "''left''"
      "()" "[]" "()" "[]" "()" "[]"]
    h1 h2 h3 h4 h5 h6 h7 h8 h9
  show ?thesis by (simp add: perform_Nil)
qed

subsection \<open>C5: registration\<close>

text \<open>
  C5. \<^verbatim>\<open>register(decl)(fn)\<close> makes the lookup of \<^verbatim>\<open>decl.name\<close> yield the entry
  \<^verbatim>\<open>{ type: decl(), fn }\<close>, whatever the registry held before: a second registration
  under a name that is present replaces the earlier entry, and the last registration
  of a load wins. Registration is a total function; it has no failure.
\<close>

theorem register_inserts:
  "registry_get (registry (register this d f)) (name d) = Entry \<lparr>fn = f, type = thunk d\<rparr> \<and>
   (name d' = name d \<longrightarrow>
      registry_get (registry (register (register this d f) d' f')) (name d) =
        Entry \<lparr>fn = f', type = thunk d'\<rparr>) \<and>
   registry_get (registry (load this (loader @ [(d, f)]))) (name d) =
     Entry \<lparr>fn = f, type = thunk d\<rparr>"
proof (intro conjI impI)
  show "registry_get (registry (register this d f)) (name d) = Entry \<lparr>fn = f, type = thunk d\<rparr>"
    by (rule registry_register)
  show "registry_get (registry (register (register this d f) d' f')) (name d) =
        Entry \<lparr>fn = f', type = thunk d'\<rparr>" if "name d' = name d"
    using registry_register[of "register this d f" d' f'] that by simp
  show "registry_get (registry (load this (loader @ [(d, f)]))) (name d) =
     Entry \<lparr>fn = f, type = thunk d\<rparr>"
    by (simp add: load_append load_Cons load_Nil registry_register)
qed

theorem register_inserts_witness:
  "name Calls_Add = name Calls_Add \<and>
   registry_get
     (registry (register (register (new_FunctionHandler :: (unit, string list) FunctionHandler)
        Calls_Add add) Calls_Add (resolving ''Second'' JNull))) (name Calls_Add) =
     Entry \<lparr>fn = resolving ''Second'' JNull, type = thunk Calls_Add\<rparr>"
  using register_inserts[of new_FunctionHandler Calls_Add add Calls_Add "resolving ''Second'' JNull"]
  by simp

subsection \<open>C6: the caller wrapper\<close>

text \<open>
  C6. \<^verbatim>\<open>realize(decl)(send)(input)\<close> ends exactly as
  \<^verbatim>\<open>send(decl.name, uuid, input)\<close> ends, with the same effect on the world. The
  wrapper hands over the name of the declaration, the token factory itself (it draws
  no token; a send function that calls the factory obtains \<open>uuid\<close> of what it
  observes) and the input unchanged.
\<close>

theorem realize_sends:
  "realize decl send input w = send (name decl) uuid input w \<and>
   realize decl (\<lambda>nm mk inp w. (Resolved (nm, mk e, inp), w)) input w =
     (Resolved (name decl, uuid e, input), w)"
proof
  show "realize decl send input w = send (name decl) uuid input w"
    unfolding realize_def by (cases "send (name decl) uuid input w") (simp add: async_await_id)
  show "realize decl (\<lambda>nm mk inp w. (Resolved (nm, mk e, inp), w)) input w =
     (Resolved (name decl, uuid e, input), w)"
    unfolding realize_def by simp
qed

subsection \<open>C7: dispatching and the registry\<close>




subsection \<open>C8: tokens\<close>

text \<open>
  C8, as stated: two invocations of the token generator whose tokens are outstanding
  together produce different strings. Two invocations within one millisecond that
  draw 0.5 and 0.5009765625 (that is 513/1024) produce the same token.
\<close>

theorem uuid_collision:
  "\<lparr>now = 1700000000000, random = 1 / 2\<rparr> \<noteq> \<lparr>now = 1700000000000, random = 513 / 1024\<rparr> \<and>
   uuid \<lparr>now = 1700000000000, random = 1 / 2\<rparr> = ''170000000000080'' \<and>
   uuid \<lparr>now = 1700000000000, random = 513 / 1024\<rparr> = ''170000000000080''"
  by (simp add: uuid_def Number_toString_def round_half round_above_half digits_now digits_salt)

text \<open>
  C8, amended. The token is the decimal rendering of the clock value followed by the
  hexadecimal rendering of \<^verbatim>\<open>Math.round(Math.random() * 256)\<close>. Two invocations
  whose clock values have decimal renderings of the same length produce the same
  token exactly when they observe the same clock value and the same rounded salt.
\<close>

theorem uuid_distinct:
  assumes "length (Number_toString 10 (now e1)) = length (Number_toString 10 (now e2))"
  shows "(uuid e1 = uuid e2) =
         (now e1 = now e2 \<and> Math_round (random e1 * 256) = Math_round (random e2 * 256))"
proof -
  have "(uuid e1 = uuid e2) =
        (Number_toString 10 (now e1) = Number_toString 10 (now e2) \<and>
         Number_toString 16 (Math_round (random e1 * 256)) =
         Number_toString 16 (Math_round (random e2 * 256)))"
    unfolding uuid_def using assms by (simp add: append_eq_append_conv)
  also have "(Number_toString 10 (now e1) = Number_toString 10 (now e2)) = (now e1 = now e2)"
    using Number_toString_inj[of 10 "now e1" "now e2"] by auto
  also have "(Number_toString 16 (Math_round (random e1 * 256)) =
         Number_toString 16 (Math_round (random e2 * 256))) =
        (Math_round (random e1 * 256) = Math_round (random e2 * 256))"
    using Number_toString_inj[of 16 "Math_round (random e1 * 256)" "Math_round (random e2 * 256)"]
    by auto
  finally show ?thesis .
qed

theorem uuid_distinct_witness:
  "length (Number_toString 10 (now \<lparr>now = 1700000000000, random = 1 / 2\<rparr>)) =
     length (Number_toString 10 (now \<lparr>now = 1700000000001, random = 1 / 2\<rparr>)) \<and>
   uuid \<lparr>now = 1700000000000, random = 1 / 2\<rparr> \<noteq> uuid \<lparr>now = 1700000000001, random = 1 / 2\<rparr>"
proof -
  have len: "length (Number_toString 10 (now \<lparr>now = 1700000000000, random = 1 / 2\<rparr>)) =
     length (Number_toString 10 (now \<lparr>now = 1700000000001, random = 1 / 2\<rparr>))"
    by (simp add: Number_toString_def digits.simps[of 10])
  show ?thesis using len uuid_distinct[OF len] by simp
qed

subsection \<open>C9: registration and sending agree on the name\<close>

text \<open>
  C9. The name that \<^verbatim>\<open>realize(d)\<close> hands to the send function is the \<open>name\<close> of the
  function object \<open>d\<close>, the very key under which \<^verbatim>\<open>register(d)(fn)\<close> stores its entry
  (the record \<open>FN\<close> that \<open>d\<close> returns has the two fields \<open>i\<close> and \<open>o\<close> only). So
  a send function that puts the name, a token and the input into an envelope and
  dispatches it on the registry reaches \<open>fn\<close>: the wrapper ends exactly as one run of
  \<open>fn\<close> on the decoded input ends.
\<close>

theorem realize_targets_registered:
  "realize d (\<lambda>nm mk inp w. (Resolved nm, w)) input w = (Resolved (name d), w) \<and>
   registry_get (registry (register this d f)) (name d) = Entry \<lparr>fn = f, type = thunk d\<rparr> \<and>
   (i_type (thunk d) input = Inr v \<longrightarrow>
      realize d
        (\<lambda>nm mk inp w.
           case call (register this d f) ctx (JArr [JStr nm, JStr (mk e), inp]) w of
             (p, h, w') \<Rightarrow> (async_await p result, w'))
        input w = (case run f ctx v w of (p, w', ws) \<Rightarrow> (p, w')))"
proof (intro conjI impI)
  show "realize d (\<lambda>nm mk inp w. (Resolved nm, w)) input w = (Resolved (name d), w)"
    unfolding realize_def by simp
  show "registry_get (registry (register this d f)) (name d) = Entry \<lparr>fn = f, type = thunk d\<rparr>"
    by (rule registry_register)
  assume v: "i_type (thunk d) input = Inr v"
  obtain p w' ws where r: "run f ctx v w = (p, w', ws)" by (cases "run f ctx v w")
  have "call (register this d f) ctx (JArr [JStr (name d), JStr (uuid e), input]) w =
      (async_await p (\<lambda>r. \<lparr>token = uuid e, result = r\<rparr>),
       perform (register this d f) ws, w')"
    using Payload_envelope registry_register
  proof (rule call_invokes)
    show "i_type (type \<lparr>fn = f, type = thunk d\<rparr>) input = Inr v" using v by simp
    show "run (fn \<lparr>fn = f, type = thunk d\<rparr>) ctx v w = (p, w', ws)" using r by simp
  qed
  then show "realize d
        (\<lambda>nm mk inp w.
           case call (register this d f) ctx (JArr [JStr nm, JStr (mk e), inp]) w of
             (p, h, w') \<Rightarrow> (async_await p result, w'))
        input w = (case run f ctx v w of (p, w', ws) \<Rightarrow> (p, w'))"
    unfolding realize_def by (simp add: r async_await_comp async_await_id)
qed

theorem realize_targets_registered_witness:
  "i_type (thunk Calls_Add) (JObj [(''a'', JNum 1), (''b'', JNum 2)]) =
     Inr (JObj [(''a'', JNum 1), (''b'', JNum 2)]) \<and>
   realize Calls_Add
     (\<lambda>nm mk inp w.
        case call (register new_FunctionHandler Calls_Add add) ()
               (JArr [JStr nm, JStr (mk \<lparr>now = 1700000000000, random = 1 / 2\<rparr>), inp]) w of
          (p, h, w') \<Rightarrow> (async_await p result, w'))
     (JObj [(''a'', JNum 1), (''b'', JNum 2)]) [] = (Resolved (JNum 3), [''Add''])"
  using realize_targets_registered[of Calls_Add "JObj [(''a'', JNum 1), (''b'', JNum 2)]" "[]"
      new_FunctionHandler add "JObj [(''a'', JNum 1), (''b'', JNum 2)]" "()"
      "\<lparr>now = 1700000000000, random = 1 / 2\<rparr>"]
  by (simp add: Add_input_ok add_ok)

subsection \<open>C10: loading is additive\<close>

text \<open>
  C10. A load keeps every entry whose name it does not register again; two loads in a
  row are the load of the two loaders in sequence; and a load after any run of
  dispatches is carried out like any other and changes the registry.
\<close>

theorem load_keeps_entries:
  "(k \<notin> set (map (name \<circ> fst) loader) \<longrightarrow> registry_get (registry this) k = Entry e \<longrightarrow>
      registry_get (registry (load this loader)) k = Entry e) \<and>
   load (load this xs) ys = load this (xs @ ys) \<and>
   registry_get (registry (load (fst (snd (calls this ds w))) [(d, f)])) (name d) =
     Entry \<lparr>fn = f, type = thunk d\<rparr>"
proof (intro conjI impI)
  show "registry_get (registry (load this loader)) k = Entry e"
    if "k \<notin> set (map (name \<circ> fst) loader)" "registry_get (registry this) k = Entry e"
    using that by (rule load_preserves_entry)
  show "load (load this xs) ys = load this (xs @ ys)"
    by (simp add: load_append)
  show "registry_get (registry (load (fst (snd (calls this ds w))) [(d, f)])) (name d) =
     Entry \<lparr>fn = f, type = thunk d\<rparr>"
    by (simp add: load_Cons load_Nil registry_register)
qed

theorem load_keeps_entries_witness:
  "''Add'' \<notin> set (map (name \<circ> fst) [(Calls_Any ''Other'', resolving ''Other'' JNull)]) \<and>
   registry_get (registry server) ''Add'' = Entry \<lparr>fn = add, type = thunk Calls_Add\<rparr> \<and>
   registry_get (registry (load server [(Calls_Any ''Other'', resolving ''Other'' JNull)])) ''Add'' =
     Entry \<lparr>fn = add, type = thunk Calls_Add\<rparr>"
proof -
  have h1: "''Add'' \<notin> set (map (name \<circ> fst) [(Calls_Any ''Other'', resolving ''Other'' JNull)])"
    by (simp add: Calls_Any_def)
  note h2 = server_Add
  from load_keeps_entries[of "''Add''" "[(Calls_Any ''Other'', resolving ''Other'' JNull)]" server
      "\<lparr>fn = add, type = thunk Calls_Add\<rparr>"] h1 h2
  show ?thesis by simp
qed

end
